theory Spec2Isabelle
  imports Complex_Main
begin

section \<open>Python exceptions\<close>

text \<open>
  The exceptions the application raises or catches are instances of Python's
  \<^verbatim>\<open>Exception\<close>. An exception value is its class together with the text that
  \<^verbatim>\<open>str(e)\<close> yields, since the program formats caught exceptions into new messages.
  \<^verbatim>\<open>JSONDecodeError\<close> is kept apart from \<^verbatim>\<open>ValueError\<close> because
  \<^verbatim>\<open>load_model\<close> has an \<^verbatim>\<open>except json.JSONDecodeError\<close> clause; every class
  the program does not name is \<open>OtherException\<close> with its class name.
  Interpreter signals below \<^verbatim>\<open>BaseException\<close> that are not \<^verbatim>\<open>Exception\<close>s
  (\<^verbatim>\<open>KeyboardInterrupt\<close>, \<^verbatim>\<open>SystemExit\<close>) are outside this model.
\<close>

datatype exc_class =
    FileNotFoundError
  | RuntimeError
  | ValueError
  | TypeError
  | JSONDecodeError
  | OtherException string

datatype py_exc = PyExc (exc_cls: exc_class) (exc_str: string)

section \<open>The favorites list\<close>

text \<open>
  \<^verbatim>\<open>starred_words = []\<close> is a module-level Python list of strings. Each handler
  below takes the current list and yields the list after the call; the handlers return
  that same list object as the response body.
\<close>

record Word =
  word :: string

text \<open>
  \<^verbatim>\<open>list.remove(x)\<close> deletes the first element equal to \<open>x\<close> and raises
  \<^verbatim>\<open>ValueError\<close> when there is none.
\<close>

definition list_remove :: "'a \<Rightarrow> 'a list \<Rightarrow> py_exc + 'a list" where
  "list_remove x xs =
     (if x \<in> set xs then Inr (remove1 x xs)
      else Inl (PyExc ValueError ''list.remove(x): x not in list''))"

definition get_starred_words :: "string list \<Rightarrow> string list" where
  "get_starred_words starred_words = starred_words"

definition add_starred_word :: "Word \<Rightarrow> string list \<Rightarrow> string list" where
  "add_starred_word w starred_words =
     (if word w \<notin> set starred_words then starred_words @ [word w] else starred_words)"

definition remove_starred_word :: "Word \<Rightarrow> string list \<Rightarrow> py_exc + string list" where
  "remove_starred_word w starred_words =
     (if word w \<in> set starred_words then list_remove (word w) starred_words
      else Inr starred_words)"

text \<open>
  A history of calls to the two mutating endpoints, applied in order to the list.
  A raised exception ends the run.
\<close>

datatype starred_call = Starred Word | Unstarred Word

fun run_starred :: "starred_call list \<Rightarrow> string list \<Rightarrow> py_exc + string list" where
  "run_starred [] starred_words = Inr starred_words"
| "run_starred (Starred w # cs) starred_words =
     run_starred cs (add_starred_word w starred_words)"
| "run_starred (Unstarred w # cs) starred_words =
     (case remove_starred_word w starred_words of
        Inl e \<Rightarrow> Inl e
      | Inr ys \<Rightarrow> run_starred cs ys)"

section \<open>Parsed JSON\<close>

text \<open>
  What \<^verbatim>\<open>json.load\<close> returns: \<^verbatim>\<open>None\<close>, a bool, an int, a float, a str, a list or
  a dict with string keys (an association list whose keys are distinct, since the
  parser keeps one value per key).
\<close>

datatype json =
    JNull
  | JBool bool
  | JInt int
  | JFloat real
  | JStr string
  | JList "json list"
  | JDict "(string \<times> json) list"

text \<open>
  \<^verbatim>\<open>key in config\<close> for a string key: key lookup on a dict, element equality on a
  list, substring search on a str, and \<^verbatim>\<open>TypeError\<close> on a value that is not
  iterable.
\<close>

fun is_substring :: "string \<Rightarrow> string \<Rightarrow> bool" where
  "is_substring k [] = (k = [])"
| "is_substring k (c # cs) = (take (length k) (c # cs) = k \<or> is_substring k cs)"

fun py_contains :: "string \<Rightarrow> json \<Rightarrow> py_exc + bool" where
  "py_contains k (JDict kvs) = Inr (map_of kvs k \<noteq> None)"
| "py_contains k (JList vs) = Inr (JStr k \<in> set vs)"
| "py_contains k (JStr s) = Inr (is_substring k s)"
| "py_contains k JNull = Inl (PyExc TypeError ''argument of type 'NoneType' is not iterable'')"
| "py_contains k (JBool b) = Inl (PyExc TypeError ''argument of type 'bool' is not iterable'')"
| "py_contains k (JInt i) = Inl (PyExc TypeError ''argument of type 'int' is not iterable'')"
| "py_contains k (JFloat r) = Inl (PyExc TypeError ''argument of type 'float' is not iterable'')"

text \<open>\<^verbatim>\<open>config[key]\<close> for a string key.\<close>

fun py_getitem :: "json \<Rightarrow> string \<Rightarrow> py_exc + json" where
  "py_getitem (JDict kvs) k =
     (case map_of kvs k of
        Some v \<Rightarrow> Inr v
      | None \<Rightarrow> Inl (PyExc (OtherException ''KeyError'') k))"
| "py_getitem (JList vs) k =
     Inl (PyExc TypeError ''list indices must be integers or slices, not str'')"
| "py_getitem (JStr s) k = Inl (PyExc TypeError ''string indices must be integers'')"
| "py_getitem JNull k = Inl (PyExc TypeError ''object is not subscriptable'')"
| "py_getitem (JBool b) k = Inl (PyExc TypeError ''object is not subscriptable'')"
| "py_getitem (JInt i) k = Inl (PyExc TypeError ''object is not subscriptable'')"
| "py_getitem (JFloat r) k = Inl (PyExc TypeError ''object is not subscriptable'')"

section \<open>Calls into the file system and the libraries\<close>

text \<open>
  \<^verbatim>\<open>load_model\<close> and \<^verbatim>\<open>lifespan\<close> reach outside the program: \<^verbatim>\<open>Path.exists\<close>,
  \<^verbatim>\<open>Tokenizer.from_file\<close>, \<^verbatim>\<open>open\<close> with \<^verbatim>\<open>json.load\<close>, the constructor
  \<^verbatim>\<open>models.SlangRNN\<close>, \<^verbatim>\<open>torch.load\<close> and \<^verbatim>\<open>load_state_dict\<close>. What these
  answer is a parameter of the model (the environment); that they were called, and in
  which order, is recorded in a log of calls that every computation carries along with
  its result. The types \<open>'m\<close>, \<open>'t\<close> and \<open>'w\<close> are the model object, the tokenizer
  object and the deserialised weights.
\<close>

record ('m, 't, 'w) artefact_env =
  path_exists :: "string \<Rightarrow> bool"
  tokenizer_from_file :: "string \<Rightarrow> py_exc + 't"
  json_load :: "string \<Rightarrow> py_exc + json"
  slang_rnn :: "json \<Rightarrow> py_exc + 'm"
  torch_load :: "string \<Rightarrow> py_exc + 'w"
  load_state_dict :: "'m \<Rightarrow> 'w \<Rightarrow> py_exc + 'm"

datatype ext_call =
    ExistsCall string
  | TokenizerFromFileCall string
  | JsonLoadCall string
  | SlangRNNCall json
  | TorchLoadCall string
  | LoadStateDictCall

type_synonym 'a io = "ext_call list \<times> (py_exc + 'a)"

definition io_return :: "'a \<Rightarrow> 'a io" where
  "io_return a = ([], Inr a)"

definition io_raise :: "py_exc \<Rightarrow> 'a io" where
  "io_raise e = ([], Inl e)"

definition io_lift :: "py_exc + 'a \<Rightarrow> 'a io" where
  "io_lift r = ([], r)"

definition ext :: "ext_call \<Rightarrow> py_exc + 'a \<Rightarrow> 'a io" where
  "ext c r = ([c], r)"

definition io_bind :: "'a io \<Rightarrow> ('a \<Rightarrow> 'b io) \<Rightarrow> 'b io" where
  "io_bind m f =
     (case m of
        (cs, Inl e) \<Rightarrow> (cs, Inl e)
      | (cs, Inr a) \<Rightarrow> (case f a of (cs', r) \<Rightarrow> (cs @ cs', r)))"

text \<open>\<^verbatim>\<open>try: m except Exception as e: handler(e)\<close>\<close>

definition try_except :: "'a io \<Rightarrow> (py_exc \<Rightarrow> 'a io) \<Rightarrow> 'a io" where
  "try_except m handler =
     (case m of
        (cs, Inl e) \<Rightarrow> (case handler e of (cs', r) \<Rightarrow> (cs @ cs', r))
      | (cs, Inr a) \<Rightarrow> (cs, Inr a))"

section \<open>Loading the model and the tokenizer\<close>

text \<open>
  Paths are kept as the strings the program builds them from; \<^verbatim>\<open>ARTEFACTS / name\<close>
  joins with a slash. The logger calls have no effect on the result and are left out.
\<close>

definition load_model :: "('m, 't, 'w) artefact_env \<Rightarrow> string \<Rightarrow> ('m \<times> 't) io" where
  "load_model env ARTEFACTS =
     (let tokenizer_path = ARTEFACTS @ ''/tokenizer.json'';
          config_path = ARTEFACTS @ ''/config.json'';
          model_path = ARTEFACTS @ ''/model.pth''
      in
      io_bind (ext (ExistsCall tokenizer_path) (Inr (path_exists env tokenizer_path))) (\<lambda>found.
      if \<not> found then
        io_raise (PyExc FileNotFoundError (''Tokenizer file not found at '' @ tokenizer_path))
      else
      io_bind (try_except
                 (ext (TokenizerFromFileCall tokenizer_path)
                    (tokenizer_from_file env tokenizer_path))
                 (\<lambda>e. io_raise (PyExc RuntimeError (''Failed to load tokenizer: '' @ exc_str e))))
        (\<lambda>tokenizer.
      io_bind (ext (ExistsCall config_path) (Inr (path_exists env config_path))) (\<lambda>found.
      if \<not> found then
        io_raise (PyExc FileNotFoundError (''Config file not found at '' @ config_path))
      else
      io_bind (try_except
                 (ext (JsonLoadCall config_path) (json_load env config_path))
                 (\<lambda>e. if exc_cls e = JSONDecodeError
                      then io_raise (PyExc ValueError (''Invalid JSON in config file: '' @ exc_str e))
                      else io_raise e))
        (\<lambda>config.
      io_bind (io_lift (py_contains ''model'' config)) (\<lambda>has_model.
      if \<not> has_model then
        io_raise (PyExc ValueError ''Config file missing 'model' key'')
      else
      io_bind (try_except
                 (io_bind (io_lift (py_getitem config ''model'')) (\<lambda>model_config.
                    ext (SlangRNNCall model_config) (slang_rnn env model_config)))
                 (\<lambda>e. io_raise (PyExc RuntimeError
                        (''Failed to initialize model architecture: '' @ exc_str e))))
        (\<lambda>model.
      io_bind (ext (ExistsCall model_path) (Inr (path_exists env model_path))) (\<lambda>found.
      if \<not> found then
        io_raise (PyExc FileNotFoundError (''Model weights not found at '' @ model_path))
      else
      io_bind (try_except
                 (io_bind (ext (TorchLoadCall model_path) (torch_load env model_path))
                    (\<lambda>state_dict. ext LoadStateDictCall (load_state_dict env model state_dict)))
                 (\<lambda>e. io_raise (PyExc RuntimeError
                        (''Failed to load model weights: '' @ exc_str e))))
        (\<lambda>loaded.
      io_return (loaded, tokenizer))))))))))"

section \<open>The registry and the application lifespan\<close>

text \<open>
  \<^verbatim>\<open>model_state = {}\<close> is a module-level dict with string keys. Its values are
  Python objects: the model, the tokenizer, or \<^verbatim>\<open>None\<close>, which is also what
  \<^verbatim>\<open>dict.get\<close> answers for a missing key. Model and tokenizer objects define
  neither \<^verbatim>\<open>__bool__\<close> nor \<^verbatim>\<open>__len__\<close> and so are truthy.
\<close>

datatype ('m, 't) py_obj = PyNone | ModelObj 'm | TokenizerObj 't

fun truthy :: "('m, 't) py_obj \<Rightarrow> bool" where
  "truthy PyNone = False"
| "truthy (ModelObj m) = True"
| "truthy (TokenizerObj t) = True"

definition dict_get :: "('k \<rightharpoonup> ('m, 't) py_obj) \<Rightarrow> 'k \<Rightarrow> ('m, 't) py_obj" where
  "dict_get d k = (case d k of None \<Rightarrow> PyNone | Some v \<Rightarrow> v)"

record ('m, 't) globals =
  ARTEFACTS_global :: string
  model_state_global :: "string \<rightharpoonup> ('m, 't) py_obj"

definition FRONTEND_FOLDER :: string where
  "FRONTEND_FOLDER = ''static''"

definition initial_globals :: "('m, 't) globals" where
  "initial_globals = \<lparr>ARTEFACTS_global = ''artefacts'', model_state_global = Map.empty\<rparr>"

text \<open>
  The part of \<^verbatim>\<open>lifespan\<close> before \<^verbatim>\<open>yield\<close>. A raised exception here ends the
  startup of the application.
\<close>

definition lifespan_startup ::
  "('m, 't, 'w) artefact_env \<Rightarrow> ('m, 't) globals \<Rightarrow> (('m, 't) globals) io" where
  "lifespan_startup env g =
     io_bind (ext (ExistsCall FRONTEND_FOLDER) (Inr (path_exists env FRONTEND_FOLDER))) (\<lambda>found.
     if \<not> found then
       io_raise (PyExc FileNotFoundError (''Cant find the frontend folder at '' @ FRONTEND_FOLDER))
     else
     io_bind (ext (ExistsCall (ARTEFACTS_global g)) (Inr (path_exists env (ARTEFACTS_global g)))) (\<lambda>found.
     io_bind
       (if \<not> found then
          (let g1 = g\<lparr>ARTEFACTS_global := ''../artefacts''\<rparr> in
           io_bind (ext (ExistsCall (ARTEFACTS_global g1)) (Inr (path_exists env (ARTEFACTS_global g1))))
             (\<lambda>found.
           if \<not> found then
             io_raise (PyExc FileNotFoundError
               (''Cant find the artefacts folder at '' @ ARTEFACTS_global g1))
           else io_return g1))
        else io_return g) (\<lambda>g1.
     try_except
       (io_bind (load_model env (ARTEFACTS_global g1)) (\<lambda>(model, tokenizer).
          io_return (g1\<lparr>model_state_global :=
            (model_state_global g1)(''model'' \<mapsto> ModelObj model,
                             ''tokenizer'' \<mapsto> TokenizerObj tokenizer)\<rparr>)))
       (\<lambda>e. io_return g1))))"

text \<open>The part of \<^verbatim>\<open>lifespan\<close> after \<^verbatim>\<open>yield\<close>: \<^verbatim>\<open>model_state.clear()\<close>.\<close>

definition lifespan_shutdown :: "('m, 't) globals \<Rightarrow> ('m, 't) globals" where
  "lifespan_shutdown g = g\<lparr>model_state_global := Map.empty\<rparr>"

section \<open>The generate endpoint\<close>

text \<open>
  \<^verbatim>\<open>sample_n\<close> is imported from \<^verbatim>\<open>backend.utils\<close>; the endpoint code is modelled
  for an arbitrary sampler, which may raise. Its arguments are \<open>n\<close>, the model, the
  tokenizer, \<open>max_length\<close> and the temperature.
\<close>

type_synonym ('m, 't) sampler =
  "int \<Rightarrow> ('m, 't) py_obj \<Rightarrow> ('m, 't) py_obj \<Rightarrow> int \<Rightarrow> real \<Rightarrow> py_exc + string list"

definition new_words ::
  "('m, 't) sampler \<Rightarrow> (string \<rightharpoonup> ('m, 't) py_obj) \<Rightarrow> int \<Rightarrow> real \<Rightarrow> py_exc + string list" where
  "new_words sample_n model_state n temperature =
     (let model = dict_get model_state ''model'';
          tokenizer = dict_get model_state ''tokenizer''
      in
      if \<not> truthy model \<or> \<not> truthy tokenizer then
        Inl (PyExc RuntimeError ''Model or Tokenizer not initialized'')
      else sample_n n model tokenizer 20 temperature)"

text \<open>
  What the caller of an endpoint receives when it fails: an \<^verbatim>\<open>HTTPException\<close> raised
  by the handler with its status code and detail, or the rejection of the request by the
  validation that the \<^verbatim>\<open>Query\<close> declarations ask the framework for, which is
  answered with status 422 before the handler runs.
\<close>

datatype http_error = HTTPException nat string | RequestValidationError

fun status_code :: "http_error + 'a \<Rightarrow> nat" where
  "status_code (Inr body) = 200"
| "status_code (Inl (HTTPException code detail)) = code"
| "status_code (Inl RequestValidationError) = 422"

text \<open>The body of the handler, for parameters that passed validation.\<close>

definition generate_words ::
  "('m, 't) sampler \<Rightarrow> (string \<rightharpoonup> ('m, 't) py_obj) \<Rightarrow> int \<Rightarrow> real \<Rightarrow> http_error + string list" where
  "generate_words sample_n model_state num_words temperature =
     (if model_state ''model'' = None \<or> model_state ''tokenizer'' = None then
        Inl (HTTPException 503 ''Model not loaded'')
      else
        (case new_words sample_n model_state num_words temperature of
           Inr words \<Rightarrow> Inr words
         | Inl e \<Rightarrow> Inl (HTTPException 500 (exc_str e))))"

text \<open>
  The query string of a request, with each parameter absent or parsed to its declared
  type. \<^verbatim>\<open>num_words: int = Query(default=10, ge=1)\<close> and
  \<^verbatim>\<open>temperature: float = Query(default=1.0, ge=0, le=10)\<close>.
\<close>

record generate_query =
  num_words_param :: "int option"
  temperature_param :: "real option"

definition query_num_words :: "int option \<Rightarrow> http_error + int" where
  "query_num_words p =
     (case p of
        None \<Rightarrow> Inr 10
      | Some v \<Rightarrow> if v \<ge> 1 then Inr v else Inl RequestValidationError)"

definition query_temperature :: "real option \<Rightarrow> http_error + real" where
  "query_temperature p =
     (case p of
        None \<Rightarrow> Inr 1
      | Some v \<Rightarrow> if v \<ge> 0 \<and> v \<le> 10 then Inr v else Inl RequestValidationError)"

definition validate_query :: "generate_query \<Rightarrow> http_error + (int \<times> real)" where
  "validate_query q =
     (case query_num_words (num_words_param q) of
        Inl e \<Rightarrow> Inl e
      | Inr num_words \<Rightarrow>
          (case query_temperature (temperature_param q) of
             Inl e \<Rightarrow> Inl e
           | Inr temperature \<Rightarrow> Inr (num_words, temperature)))"

text \<open>\<^verbatim>\<open>GET /generate\<close>: validation of the query, then the handler.\<close>

definition get_generate ::
  "('m, 't) sampler \<Rightarrow> (string \<rightharpoonup> ('m, 't) py_obj) \<Rightarrow> generate_query
     \<Rightarrow> http_error + string list" where
  "get_generate sample_n model_state q =
     (case validate_query q of
        Inl e \<Rightarrow> Inl e
      | Inr (num_words, temperature) \<Rightarrow>
          generate_words sample_n model_state num_words temperature)"

section \<open>The health endpoint\<close>

definition health :: "(string \<times> string) list" where
  "health = [(''status'', ''ok'')]"

section \<open>Fixtures for worked examples\<close>

text \<open>
  Stand-ins of the kind the repository's tests use: a registry holding two opaque
  objects (the tests inject mocks), a sampler that returns \<open>n\<close> words of
  \<open>max_length\<close> letters, and a sampler that raises.
\<close>

definition loaded_state :: "string \<rightharpoonup> (unit, unit) py_obj" where
  "loaded_state = [''model'' \<mapsto> ModelObj (), ''tokenizer'' \<mapsto> TokenizerObj ()]"

definition empty_state :: "string \<rightharpoonup> (unit, unit) py_obj" where
  "empty_state = Map.empty"

definition stub_sample_n :: "('m, 't) sampler" where
  "stub_sample_n n model tokenizer max_length temperature =
     Inr (replicate (nat n) (replicate (nat max_length) CHR ''a''))"

definition raising_sample_n :: "string \<Rightarrow> ('m, 't) sampler" where
  "raising_sample_n msg n model tokenizer max_length temperature =
     Inl (PyExc RuntimeError msg)"

text \<open>
  An artefact directory as an environment: the paths that exist and the parsed content
  of \<^verbatim>\<open>config.json\<close> are given; the tokenizer stand-in is the size of its
  vocabulary, the model stand-in is the configuration it was built from with a flag
  telling whether weights were loaded into it.
\<close>

definition stub_env :: "string list \<Rightarrow> nat \<Rightarrow> json \<Rightarrow> (json \<times> bool, nat, unit) artefact_env" where
  "stub_env files tokenizer_vocab config =
     \<lparr>path_exists = (\<lambda>p. p \<in> set files),
      tokenizer_from_file = (\<lambda>p. Inr tokenizer_vocab),
      json_load = (\<lambda>p. Inr config),
      slang_rnn = (\<lambda>model_config. Inr (model_config, False)),
      torch_load = (\<lambda>p. Inr ()),
      load_state_dict = (\<lambda>model state_dict. Inr (fst model, True))\<rparr>"

definition all_files :: "string list" where
  "all_files = [''static'', ''artefacts'', ''artefacts/tokenizer.json'',
                ''artefacts/config.json'', ''artefacts/model.pth'']"

definition files_without_weights :: "string list" where
  "files_without_weights = [''static'', ''artefacts'', ''artefacts/tokenizer.json'',
                            ''artefacts/config.json'']"

definition stub_config :: json where
  "stub_config = JDict [(''model'', JDict [(''vocab'', JInt 50)])]"

text \<open>
  The order of the calls of a complete load, for the claim about the order of the load
  steps: tokenizer, configuration, architecture, weights.
\<close>

definition load_model_calls :: "string \<Rightarrow> json \<Rightarrow> ext_call list" where
  "load_model_calls ARTEFACTS model_config =
     [ExistsCall (ARTEFACTS @ ''/tokenizer.json''),
      TokenizerFromFileCall (ARTEFACTS @ ''/tokenizer.json''),
      ExistsCall (ARTEFACTS @ ''/config.json''),
      JsonLoadCall (ARTEFACTS @ ''/config.json''),
      SlangRNNCall model_config,
      ExistsCall (ARTEFACTS @ ''/model.pth''),
      TorchLoadCall (ARTEFACTS @ ''/model.pth''),
      LoadStateDictCall]"

section \<open>The sampler, from its specification\<close>


text \<open>
  Modelled from the spec: the tokenizer owns the vocabulary, an ordered list of tokens
  whose ids are their positions, with a reserved start token and a reserved end token.
  A token is one character: decoding yields one character per id, as the tokenizer
  stand-in of the repository's tests does (\<^verbatim>\<open>MockTokenizer.decode\<close> joins
  \<^verbatim>\<open>chr(i)\<close> over the ids) and as the specification's scenario of a token ``mapped to
  character a'' has it. Decoding fails on an id outside the vocabulary. Tokenizers
  whose tokens are longer than one character are not covered by this model.
\<close>

record tokenizer =
  vocabulary :: string
  start_id :: nat
  end_id :: nat














section \<open>Properties of the favorites list\<close>

lemma add_starred_word_distinct:
  "distinct xs \<Longrightarrow> distinct (add_starred_word w xs)"
  by (simp add: add_starred_word_def)

lemma remove_starred_word_total:
  "remove_starred_word w xs = Inr (remove1 (word w) xs)"
  by (simp add: remove_starred_word_def list_remove_def remove1_idem)

lemma remove1_distinct_filter:
  "distinct xs \<Longrightarrow> remove1 v xs = filter (\<lambda>u. u \<noteq> v) xs"
proof (induction xs)
  case Nil
  then show ?case by simp
next
  case (Cons a xs)
  have "v \<notin> set xs \<Longrightarrow> filter (\<lambda>u. u \<noteq> v) xs = xs"
    by (auto simp add: filter_id_conv)
  with Cons show ?case by auto
qed

lemma run_starred_distinct:
  "distinct xs \<Longrightarrow> \<exists>ys. run_starred cs xs = Inr ys \<and> distinct ys"
proof (induction cs arbitrary: xs)
  case Nil
  then show ?case by simp
next
  case (Cons c cs)
  show ?case
  proof (cases c)
    case (Starred w)
    with Cons show ?thesis
      by (simp add: add_starred_word_distinct)
  next
    case (Unstarred w)
    with Cons show ?thesis
      by (simp add: remove_starred_word_total)
  qed
qed

text \<open>
  C7. Starting from the empty list, every history of add and remove calls runs without
  an exception and leaves a list \<open>xs\<close> without duplicates. On such a list, adding a
  word that is absent appends it at the end and adding a word that is present changes
  nothing, so adding twice equals adding once; removing a word yields the list without
  that word and with the other words in their previous order; listing returns the list
  as it is; and two words are the same entry exactly when they are equal strings.
\<close>

theorem favorites_distinct_insertion_order:
  "\<exists>xs. run_starred cs [] = Inr xs \<and> distinct xs
     \<and> (\<forall>w. add_starred_word w xs = (if word w \<in> set xs then xs else xs @ [word w])
          \<and> add_starred_word w (add_starred_word w xs) = add_starred_word w xs
          \<and> distinct (add_starred_word w xs)
          \<and> remove_starred_word w xs = Inr (filter (\<lambda>v. v \<noteq> word w) xs)
          \<and> remove_starred_word w (add_starred_word w xs) = Inr (filter (\<lambda>v. v \<noteq> word w) xs))
     \<and> get_starred_words xs = xs"
proof -
  obtain xs where run: "run_starred cs [] = Inr xs" and d: "distinct xs"
    using run_starred_distinct [of "[]" cs] by auto
  have rm: "remove1 v xs = filter (\<lambda>u. u \<noteq> v) xs" for v
    using d by (rule remove1_distinct_filter)
  have rm': "remove1 v (xs @ [v]) = filter (\<lambda>u. u \<noteq> v) xs" if "v \<notin> set xs" for v
  proof -
    have "filter (\<lambda>u. u \<noteq> v) xs = xs"
      using that by (auto simp add: filter_id_conv)
    with that show ?thesis
      by (simp add: remove1_append)
  qed
  have every: "add_starred_word w xs = (if word w \<in> set xs then xs else xs @ [word w])
          \<and> add_starred_word w (add_starred_word w xs) = add_starred_word w xs
          \<and> distinct (add_starred_word w xs)
          \<and> remove_starred_word w xs = Inr (filter (\<lambda>v. v \<noteq> word w) xs)
          \<and> remove_starred_word w (add_starred_word w xs) = Inr (filter (\<lambda>v. v \<noteq> word w) xs)" for w
    using d rm rm' by (simp add: add_starred_word_def remove_starred_word_total)
  have listing: "get_starred_words xs = xs"
    by (simp add: get_starred_words_def)
  from run d every listing show ?thesis
    by blast
qed

theorem favorites_distinct_insertion_order_witness:
  "run_starred [Starred \<lparr>word = ''nebula''\<rparr>, Starred \<lparr>word = ''Nebula''\<rparr>,
                Starred \<lparr>word = ''nebula''\<rparr>, Starred \<lparr>word = ''quasar''\<rparr>,
                Unstarred \<lparr>word = ''Nebula''\<rparr>] []
     = Inr [''nebula'', ''quasar'']
   \<and> distinct [''nebula'', ''quasar'']
   \<and> add_starred_word \<lparr>word = ''pulsar''\<rparr> [''nebula'', ''quasar'']
       = [''nebula'', ''quasar'', ''pulsar'']
   \<and> add_starred_word \<lparr>word = ''nebula''\<rparr> [''nebula'', ''quasar'']
       = [''nebula'', ''quasar'']
   \<and> remove_starred_word \<lparr>word = ''nebula''\<rparr> [''nebula'', ''quasar''] = Inr [''quasar'']"
proof -
  have run: "run_starred [Starred \<lparr>word = ''nebula''\<rparr>, Starred \<lparr>word = ''Nebula''\<rparr>,
                Starred \<lparr>word = ''nebula''\<rparr>, Starred \<lparr>word = ''quasar''\<rparr>,
                Unstarred \<lparr>word = ''Nebula''\<rparr>] []
     = Inr [''nebula'', ''quasar'']"
    by (simp add: add_starred_word_def remove_starred_word_def list_remove_def)
  from favorites_distinct_insertion_order
    [of "[Starred \<lparr>word = ''nebula''\<rparr>, Starred \<lparr>word = ''Nebula''\<rparr>,
          Starred \<lparr>word = ''nebula''\<rparr>, Starred \<lparr>word = ''quasar''\<rparr>,
          Unstarred \<lparr>word = ''Nebula''\<rparr>]"]
  obtain xs where xs: "xs = [''nebula'', ''quasar'']" and d: "distinct xs"
    and all: "\<And>w. add_starred_word w xs = (if word w \<in> set xs then xs else xs @ [word w])
          \<and> remove_starred_word w xs = Inr (filter (\<lambda>v. v \<noteq> word w) xs)"
    unfolding run by auto
  from all [of "\<lparr>word = ''pulsar''\<rparr>"] all [of "\<lparr>word = ''nebula''\<rparr>"] d run
  show ?thesis
    unfolding xs by simp
qed

text \<open>
  C10. Removing a word that is not in the favorites list raises nothing and returns the
  list unchanged.
\<close>

theorem remove_non_member_is_noop:
  "word w \<notin> set starred_words \<Longrightarrow> remove_starred_word w starred_words = Inr starred_words"
  by (simp add: remove_starred_word_def)

theorem remove_non_member_is_noop_witness:
  "''comet'' \<notin> set [''nebula'', ''quasar'']
   \<and> remove_starred_word \<lparr>word = ''comet''\<rparr> [''nebula'', ''quasar'']
       = Inr [''nebula'', ''quasar'']"
proof -
  have h: "word \<lparr>word = ''comet''\<rparr> \<notin> set [''nebula'', ''quasar'']"
    by simp
  from remove_non_member_is_noop [OF h] h show ?thesis
    by simp
qed

section \<open>Properties of loading\<close>

lemmas io_defs = io_bind_def ext_def io_raise_def io_return_def io_lift_def try_except_def




lemma load_model_fails:
  "\<not> path_exists env (A @ ''/tokenizer.json'')
   \<or> (\<exists>e. tokenizer_from_file env (A @ ''/tokenizer.json'') = Inl e)
   \<or> \<not> path_exists env (A @ ''/config.json'')
   \<or> (\<exists>e. json_load env (A @ ''/config.json'') = Inl e)
   \<or> (\<exists>config. json_load env (A @ ''/config.json'') = Inr config \<and> py_contains ''model'' config \<noteq> Inr True)
   \<or> (\<exists>config model_config e. json_load env (A @ ''/config.json'') = Inr config \<and> py_getitem config ''model'' = Inr model_config \<and> slang_rnn env model_config = Inl e)
   \<or> \<not> path_exists env (A @ ''/model.pth'')
   \<or> (\<exists>e. torch_load env (A @ ''/model.pth'') = Inl e)
   \<or> (\<exists>config model_config model w e. json_load env (A @ ''/config.json'') = Inr config \<and> py_getitem config ''model'' = Inr model_config \<and> slang_rnn env model_config = Inr model \<and> torch_load env (A @ ''/model.pth'') = Inr w \<and> load_state_dict env model w = Inl e)
   \<Longrightarrow> \<exists>e. snd (load_model env A) = Inl e"
  by (auto simp add: load_model_def io_defs Let_def
       split: if_splits sum.splits prod.splits)

section \<open>Properties of the lifespan\<close>

lemma lifespan_startup_cases:
  "lifespan_startup env g = (cs, Inr g') \<Longrightarrow>
     (case snd (load_model env (ARTEFACTS_global g')) of
        Inl e \<Rightarrow> model_state_global g' = model_state_global g
      | Inr (m, t) \<Rightarrow> model_state_global g' =
          (model_state_global g)(''model'' \<mapsto> ModelObj m, ''tokenizer'' \<mapsto> TokenizerObj t))"
  by (cases "load_model env (ARTEFACTS_global g)"; cases "load_model env ''../artefacts''")
     (auto simp add: lifespan_startup_def io_defs Let_def split: if_splits sum.splits prod.splits)

lemma lifespan_startup_raises_iff:
  "(\<exists>cs e. lifespan_startup env g = (cs, Inl e)) \<longleftrightarrow>
     (\<not> path_exists env FRONTEND_FOLDER \<or>
      (\<not> path_exists env (ARTEFACTS_global g) \<and> \<not> path_exists env ''../artefacts''))"
  by (cases "load_model env (ARTEFACTS_global g)"; cases "load_model env ''../artefacts''")
     (auto simp add: lifespan_startup_def io_defs Let_def split: if_splits sum.splits prod.splits)

section \<open>Properties of the generate endpoint\<close>

lemma generate_words_not_loaded:
  "model_state ''model'' = None \<or> model_state ''tokenizer'' = None \<Longrightarrow>
   generate_words sample_n model_state num_words temperature = Inl (HTTPException 503 ''Model not loaded'')"
  by (simp add: generate_words_def)

lemma generate_words_loaded_status:
  "model_state ''model'' \<noteq> None \<Longrightarrow> model_state ''tokenizer'' \<noteq> None \<Longrightarrow>
   status_code (generate_words sample_n model_state num_words temperature) \<in> {200, 500}"
  by (simp add: generate_words_def split: sum.splits)

lemma validate_query_error:
  "validate_query q = Inl e \<Longrightarrow> e = RequestValidationError"
  by (auto simp add: validate_query_def query_num_words_def query_temperature_def split: sum.splits option.splits if_splits)

lemma get_generate_loaded_status:
  assumes "model_state ''model'' \<noteq> None" and "model_state ''tokenizer'' \<noteq> None"
  shows "status_code (get_generate sample_n model_state q) \<in> {200, 422, 500}"
proof (cases "validate_query q")
  case (Inl e)
  then have "e = RequestValidationError"
    by (rule validate_query_error)
  with Inl show ?thesis
    by (simp add: get_generate_def)
next
  case (Inr p)
  obtain n T where p: "p = (n, T)"
    by (cases p)
  from generate_words_loaded_status [OF assms, of sample_n n T] Inr p show ?thesis
    by (auto simp add: get_generate_def)
qed

text \<open>
  C9. A request to the generate endpoint without parameters passes validation with
  \<open>num_words = 10\<close> and \<open>temperature = 1\<close>. With the model and the tokenizer in
  the registry, the response to it is what the sampler returns for \<open>n = 10\<close>, this
  model and tokenizer, \<open>max_length = 20\<close> and \<open>temperature = 1\<close> (its words, or a
  500 error with its exception's text). For every request, whatever count and
  temperature it carries, the handler calls \<^verbatim>\<open>new_words\<close> with them and
  \<^verbatim>\<open>new_words\<close> calls the sampler with them and \<open>max_length = 20\<close>; two samplers
  that agree at \<open>max_length = 20\<close> give the same response to every request, so no
  request reaches the sampler with another bound.
\<close>

theorem generate_defaults_and_fixed_max_length:
  "validate_query \<lparr>num_words_param = None, temperature_param = None\<rparr> = Inr (10, 1)
   \<and> get_generate sample_n model_state \<lparr>num_words_param = None, temperature_param = None\<rparr>
     = generate_words sample_n model_state 10 1
   \<and> (model_state ''model'' = Some model \<and> model_state ''tokenizer'' = Some tokenizer
        \<and> truthy model \<and> truthy tokenizer \<longrightarrow>
        get_generate sample_n model_state \<lparr>num_words_param = None, temperature_param = None\<rparr>
          = (case sample_n 10 model tokenizer 20 1 of
               Inr words \<Rightarrow> Inr words
             | Inl e \<Rightarrow> Inl (HTTPException 500 (exc_str e)))
      \<and> (\<forall>k T. validate_query q = Inr (k, T) \<longrightarrow>
            get_generate sample_n model_state q
              = (case sample_n k model tokenizer 20 T of
                   Inr words \<Rightarrow> Inr words
                 | Inl e \<Rightarrow> Inl (HTTPException 500 (exc_str e))))
      \<and> generate_words sample_n model_state n temperature
          = (case sample_n n model tokenizer 20 temperature of
               Inr words \<Rightarrow> Inr words
             | Inl e \<Rightarrow> Inl (HTTPException 500 (exc_str e)))
      \<and> new_words sample_n model_state n temperature
          = sample_n n model tokenizer 20 temperature)
   \<and> ((\<forall>k m t T. sample_n k m t 20 T = other_sample_n k m t 20 T) \<longrightarrow>
        get_generate sample_n model_state q = get_generate other_sample_n model_state q)"
proof -
  have valid: "validate_query \<lparr>num_words_param = None, temperature_param = None\<rparr> = Inr (10, 1)"
    by (simp add: validate_query_def query_num_words_def query_temperature_def)
  have defaults:
    "get_generate sample_n model_state \<lparr>num_words_param = None, temperature_param = None\<rparr>
       = generate_words sample_n model_state 10 1"
    by (simp add: get_generate_def valid)
  have loaded:
    "get_generate sample_n model_state \<lparr>num_words_param = None, temperature_param = None\<rparr>
          = (case sample_n 10 model tokenizer 20 1 of
               Inr words \<Rightarrow> Inr words
             | Inl e \<Rightarrow> Inl (HTTPException 500 (exc_str e)))
      \<and> (\<forall>k T. validate_query q = Inr (k, T) \<longrightarrow>
            get_generate sample_n model_state q
              = (case sample_n k model tokenizer 20 T of
                   Inr words \<Rightarrow> Inr words
                 | Inl e \<Rightarrow> Inl (HTTPException 500 (exc_str e))))
      \<and> generate_words sample_n model_state n temperature
          = (case sample_n n model tokenizer 20 temperature of
               Inr words \<Rightarrow> Inr words
             | Inl e \<Rightarrow> Inl (HTTPException 500 (exc_str e)))
      \<and> new_words sample_n model_state n temperature
          = sample_n n model tokenizer 20 temperature"
    if reg: "model_state ''model'' = Some model \<and> model_state ''tokenizer'' = Some tokenizer
        \<and> truthy model \<and> truthy tokenizer"
  proof -
    have nw: "new_words sample_n model_state k T = sample_n k model tokenizer 20 T" for k T
      using reg by (simp add: new_words_def dict_get_def)
    have gw: "generate_words sample_n model_state k T
          = (case sample_n k model tokenizer 20 T of
               Inr words \<Rightarrow> Inr words
             | Inl e \<Rightarrow> Inl (HTTPException 500 (exc_str e)))" for k T
      using reg by (simp add: generate_words_def nw)
    have gg: "get_generate sample_n model_state q
              = (case sample_n k model tokenizer 20 T of
                   Inr words \<Rightarrow> Inr words
                 | Inl e \<Rightarrow> Inl (HTTPException 500 (exc_str e)))"
      if "validate_query q = Inr (k, T)" for k T
      using that by (simp add: get_generate_def gw)
    from defaults gw [of 10 1] gw [of n temperature] nw [of n temperature] gg show ?thesis
      by simp
  qed
  have fixed: "get_generate sample_n model_state q = get_generate other_sample_n model_state q"
    if "\<forall>k m t T. sample_n k m t 20 T = other_sample_n k m t 20 T"
  proof -
    have "new_words sample_n model_state k T = new_words other_sample_n model_state k T" for k T
      using that by (simp add: new_words_def Let_def)
    then have "generate_words sample_n model_state k T
                 = generate_words other_sample_n model_state k T" for k T
      by (simp add: generate_words_def)
    then show ?thesis
      by (simp add: get_generate_def split: sum.splits prod.splits)
  qed
  from valid defaults loaded fixed show ?thesis
    by blast
qed

theorem generate_defaults_and_fixed_max_length_witness:
  "loaded_state ''model'' = Some (ModelObj ())
   \<and> loaded_state ''tokenizer'' = Some (TokenizerObj ())
   \<and> stub_sample_n 10 (ModelObj ()) (TokenizerObj ()) 20 1
       = Inr (replicate 10 (replicate 20 CHR ''a''))
   \<and> get_generate stub_sample_n loaded_state \<lparr>num_words_param = None, temperature_param = None\<rparr>
       = Inr (replicate 10 (replicate 20 CHR ''a''))
   \<and> validate_query \<lparr>num_words_param = Some 2, temperature_param = Some 7\<rparr> = Inr (2, 7)
   \<and> get_generate stub_sample_n loaded_state \<lparr>num_words_param = Some 2, temperature_param = Some 7\<rparr>
       = Inr (replicate 2 (replicate 20 CHR ''a''))
   \<and> get_generate (raising_sample_n ''out of memory'') loaded_state
        \<lparr>num_words_param = None, temperature_param = None\<rparr>
       = Inl (HTTPException 500 ''out of memory'')"
proof -
  have m: "loaded_state ''model'' = Some (ModelObj ())"
    and t: "loaded_state ''tokenizer'' = Some (TokenizerObj ())"
    by (simp_all add: loaded_state_def)
  have tm: "truthy (ModelObj () :: (unit, unit) py_obj)"
    and tt: "truthy (TokenizerObj () :: (unit, unit) py_obj)"
    by simp_all
  have s10: "stub_sample_n 10 (ModelObj () :: (unit, unit) py_obj) (TokenizerObj ()) 20 1
       = Inr (replicate 10 (replicate 20 CHR ''a''))"
    and s2: "stub_sample_n 2 (ModelObj () :: (unit, unit) py_obj) (TokenizerObj ()) 20 7
       = Inr (replicate 2 (replicate 20 CHR ''a''))"
    by (simp_all add: stub_sample_n_def)
  have r: "raising_sample_n ''out of memory'' 10 (ModelObj () :: (unit, unit) py_obj)
             (TokenizerObj ()) 20 1 = Inl (PyExc RuntimeError ''out of memory'')"
    by (simp add: raising_sample_n_def)
  have v: "validate_query \<lparr>num_words_param = Some 2, temperature_param = Some 7\<rparr> = Inr (2, 7)"
    by (simp add: validate_query_def query_num_words_def query_temperature_def)
  from generate_defaults_and_fixed_max_length
         [where sample_n = stub_sample_n and model_state = loaded_state
            and model = "ModelObj ()" and tokenizer = "TokenizerObj ()"
            and q = "\<lparr>num_words_param = Some 2, temperature_param = Some 7\<rparr>"
            and n = 2 and temperature = 7 and other_sample_n = stub_sample_n]
       m t tm tt v
  have defaults: "get_generate stub_sample_n loaded_state
        \<lparr>num_words_param = None, temperature_param = None\<rparr>
       = (case stub_sample_n 10 (ModelObj ()) (TokenizerObj ()) 20 1 of
               Inr words \<Rightarrow> Inr words
             | Inl e \<Rightarrow> Inl (HTTPException 500 (exc_str e)))"
    and custom: "get_generate stub_sample_n loaded_state
        \<lparr>num_words_param = Some 2, temperature_param = Some 7\<rparr>
       = (case stub_sample_n 2 (ModelObj ()) (TokenizerObj ()) 20 7 of
               Inr words \<Rightarrow> Inr words
             | Inl e \<Rightarrow> Inl (HTTPException 500 (exc_str e)))"
    by blast+
  from generate_defaults_and_fixed_max_length
         [where sample_n = "raising_sample_n ''out of memory''" and model_state = loaded_state
            and model = "ModelObj ()" and tokenizer = "TokenizerObj ()"
            and q = "\<lparr>num_words_param = Some 2, temperature_param = Some 7\<rparr>"
            and n = 2 and temperature = 7
            and other_sample_n = "raising_sample_n ''out of memory''"]
       m t tm tt
  have raised: "get_generate (raising_sample_n ''out of memory'') loaded_state
        \<lparr>num_words_param = None, temperature_param = None\<rparr>
       = (case raising_sample_n ''out of memory'' 10 (ModelObj ()) (TokenizerObj ()) 20 1 of
               Inr words \<Rightarrow> Inr words
             | Inl e \<Rightarrow> Inl (HTTPException 500 (exc_str e)))"
    by blast
  from m t s10 v defaults custom raised show ?thesis
    by (simp add: s2 r)
qed

text \<open>
  C6. A request whose count is below 1 or whose temperature is below 0 or above 10 is
  answered with the validation error (status 422), for every sampler and every registry
  state: the response does not depend on either, the handler body is not entered. A
  request with count at least 1 and temperature within 0 and 10 passes validation and
  the handler runs with exactly these values.
\<close>

theorem boundary_validation:
  "((\<exists>n. num_words_param q = Some n \<and> n < 1)
      \<or> (\<exists>T. temperature_param q = Some T \<and> (T < 0 \<or> 10 < T)) \<longrightarrow>
        get_generate sample_n model_state q = Inl RequestValidationError
      \<and> status_code (get_generate sample_n model_state q) = 422)
   \<and> (num_words_param q = Some n \<and> temperature_param q = Some T
        \<and> 1 \<le> n \<and> 0 \<le> T \<and> T \<le> 10 \<longrightarrow>
        validate_query q = Inr (n, T)
      \<and> get_generate sample_n model_state q = generate_words sample_n model_state n T)"
  by (auto simp add: get_generate_def validate_query_def query_num_words_def
        query_temperature_def split: option.splits)

theorem boundary_validation_witness:
  "get_generate stub_sample_n loaded_state \<lparr>num_words_param = Some 0, temperature_param = None\<rparr>
     = Inl RequestValidationError
   \<and> get_generate (raising_sample_n ''unused'') empty_state
        \<lparr>num_words_param = None, temperature_param = Some 11\<rparr> = Inl RequestValidationError
   \<and> validate_query \<lparr>num_words_param = Some 1, temperature_param = Some 10\<rparr> = Inr (1, 10)
   \<and> validate_query \<lparr>num_words_param = Some 5, temperature_param = Some 0\<rparr> = Inr (5, 0)"
  using boundary_validation
          [of "\<lparr>num_words_param = Some 0, temperature_param = None\<rparr>" stub_sample_n loaded_state 1 1]
        boundary_validation
          [of "\<lparr>num_words_param = None, temperature_param = Some 11\<rparr>"
              "raising_sample_n ''unused''" empty_state 1 1]
        boundary_validation
          [of "\<lparr>num_words_param = Some 1, temperature_param = Some 10\<rparr>" stub_sample_n loaded_state 1 10]
        boundary_validation
          [of "\<lparr>num_words_param = Some 5, temperature_param = Some 0\<rparr>" stub_sample_n loaded_state 5 0]
  by simp

text \<open>
  C5 as stated fails: the response to a request during which the sampler raises carries
  the text of the exception as its detail, so two different causes give two different
  responses.
\<close>

theorem sampler_exception_counterexample:
  "get_generate (raising_sample_n ''no weights at /srv/artefacts/model.pth'') loaded_state
      \<lparr>num_words_param = None, temperature_param = None\<rparr>
     = Inl (HTTPException 500 ''no weights at /srv/artefacts/model.pth'')
   \<and> get_generate (raising_sample_n ''first cause'') loaded_state
        \<lparr>num_words_param = None, temperature_param = None\<rparr>
     \<noteq> get_generate (raising_sample_n ''second cause'') loaded_state
        \<lparr>num_words_param = None, temperature_param = None\<rparr>"
  by (simp add: get_generate_def validate_query_def query_num_words_def query_temperature_def
        generate_words_def new_words_def dict_get_def loaded_state_def raising_sample_n_def)

text \<open>
  C5, amended. When the registry holds the model and the tokenizer and the sampler
  raises an exception \<open>e\<close> during a valid request, the exception is caught and the
  caller receives an HTTP 500 error whose detail is the message text of \<open>e\<close>.
\<close>

theorem sampler_exception_reported_with_message:
  assumes "validate_query q = Inr (num_words, temperature)"
      and "model_state ''model'' = Some model"
      and "model_state ''tokenizer'' = Some tokenizer"
      and "truthy model" and "truthy tokenizer"
      and "sample_n num_words model tokenizer 20 temperature = Inl e"
  shows "get_generate sample_n model_state q = Inl (HTTPException 500 (exc_str e))
       \<and> status_code (get_generate sample_n model_state q) = 500"
  using assms
  by (simp add: get_generate_def generate_words_def new_words_def dict_get_def)

theorem sampler_exception_reported_with_message_witness:
  "validate_query \<lparr>num_words_param = Some 3, temperature_param = None\<rparr> = Inr (3, 1)
   \<and> loaded_state ''model'' = Some (ModelObj ())
   \<and> loaded_state ''tokenizer'' = Some (TokenizerObj ())
   \<and> raising_sample_n ''tensor shape mismatch'' 3 (ModelObj ()) (TokenizerObj ()) 20 1
        = Inl (PyExc RuntimeError ''tensor shape mismatch'')
   \<and> get_generate (raising_sample_n ''tensor shape mismatch'') loaded_state
        \<lparr>num_words_param = Some 3, temperature_param = None\<rparr>
        = Inl (HTTPException 500 ''tensor shape mismatch'')"
proof -
  have v: "validate_query \<lparr>num_words_param = Some 3, temperature_param = None\<rparr> = Inr (3, 1)"
    by (simp add: validate_query_def query_num_words_def query_temperature_def)
  have m: "loaded_state ''model'' = Some (ModelObj ())"
    and t: "loaded_state ''tokenizer'' = Some (TokenizerObj ())"
    by (simp_all add: loaded_state_def)
  have r: "raising_sample_n ''tensor shape mismatch'' 3 (ModelObj ()) (TokenizerObj ()) 20 1
        = Inl (PyExc RuntimeError ''tensor shape mismatch'')"
    by (simp add: raising_sample_n_def)
  have tm: "truthy (ModelObj () :: (unit, unit) py_obj)"
    and tt: "truthy (TokenizerObj () :: (unit, unit) py_obj)"
    by simp_all
  from sampler_exception_reported_with_message
         [where sample_n = "raising_sample_n ''tensor shape mismatch''"
            and model_state = loaded_state and model = "ModelObj ()"
            and tokenizer = "TokenizerObj ()" and e = "PyExc RuntimeError ''tensor shape mismatch''",
          OF v m t tm tt r]
       v m t r
  show ?thesis
    by simp
qed

text \<open>
  C1 as stated fails: a request with \<open>num_words = 0\<close> made while the registry is
  empty is rejected by the parameter validation with status 422, not with 503.
\<close>

theorem readiness_gating_counterexample:
  "empty_state ''model'' = None
   \<and> get_generate stub_sample_n empty_state \<lparr>num_words_param = Some 0, temperature_param = None\<rparr>
       = Inl RequestValidationError
   \<and> status_code (get_generate stub_sample_n empty_state
        \<lparr>num_words_param = Some 0, temperature_param = None\<rparr>) = 422"
  by (simp add: empty_state_def get_generate_def validate_query_def query_num_words_def
        query_temperature_def)

text \<open>
  C1, amended. While the registry lacks the model or the tokenizer entry, the handler
  fails with HTTP 503 ``Model not loaded'' for all arguments, and so does every request
  that passes parameter validation; a request that does not pass it is rejected by the
  validation instead. After a startup whose load succeeded, no request and no handler
  call fails with status 503; after the shutdown cleared the registry, the handler
  fails with 503 again.
\<close>

theorem readiness_gating:
  "(model_state ''model'' = None \<or> model_state ''tokenizer'' = None \<longrightarrow>
       generate_words sample_n model_state num_words temperature
         = Inl (HTTPException 503 ''Model not loaded'')
     \<and> (\<forall>n T. validate_query q = Inr (n, T) \<longrightarrow>
           get_generate sample_n model_state q = Inl (HTTPException 503 ''Model not loaded''))
     \<and> (\<forall>e. validate_query q = Inl e \<longrightarrow>
           get_generate sample_n model_state q = Inl RequestValidationError))
   \<and> (lifespan_startup env g = (cs, Inr g')
        \<and> snd (load_model env (ARTEFACTS_global g')) = Inr (m, t) \<longrightarrow>
       status_code (get_generate sample_n (model_state_global g') q) \<noteq> 503
     \<and> status_code (generate_words sample_n (model_state_global g') num_words temperature) \<noteq> 503
     \<and> generate_words sample_n (model_state_global (lifespan_shutdown g')) num_words temperature
         = Inl (HTTPException 503 ''Model not loaded''))"
proof -
  have before: "generate_words sample_n model_state num_words temperature
         = Inl (HTTPException 503 ''Model not loaded'')
     \<and> (\<forall>n T. validate_query q = Inr (n, T) \<longrightarrow>
           get_generate sample_n model_state q = Inl (HTTPException 503 ''Model not loaded''))
     \<and> (\<forall>e. validate_query q = Inl e \<longrightarrow>
           get_generate sample_n model_state q = Inl RequestValidationError)"
    if "model_state ''model'' = None \<or> model_state ''tokenizer'' = None"
    using generate_words_not_loaded [OF that] validate_query_error [of q]
    by (auto simp add: get_generate_def)
  have after: "status_code (get_generate sample_n (model_state_global g') q) \<noteq> 503
     \<and> status_code (generate_words sample_n (model_state_global g') num_words temperature) \<noteq> 503
     \<and> generate_words sample_n (model_state_global (lifespan_shutdown g')) num_words temperature
         = Inl (HTTPException 503 ''Model not loaded'')"
    if run: "lifespan_startup env g = (cs, Inr g')"
      and ok: "snd (load_model env (ARTEFACTS_global g')) = Inr (m, t)"
  proof -
    from lifespan_startup_cases [OF run] ok
    have keys: "model_state_global g' ''model'' \<noteq> None" "model_state_global g' ''tokenizer'' \<noteq> None"
      by simp_all
    from get_generate_loaded_status [OF keys, of sample_n q]
    have endpoint: "status_code (get_generate sample_n (model_state_global g') q) \<noteq> 503"
      by auto
    from generate_words_loaded_status [OF keys, of sample_n num_words temperature]
    have handler:
      "status_code (generate_words sample_n (model_state_global g') num_words temperature) \<noteq> 503"
      by auto
    have cleared:
      "generate_words sample_n (model_state_global (lifespan_shutdown g')) num_words temperature
         = Inl (HTTPException 503 ''Model not loaded'')"
      by (simp add: lifespan_shutdown_def generate_words_def)
    from endpoint handler cleared show ?thesis
      by blast
  qed
  from before after show ?thesis
    by blast
qed

theorem readiness_gating_witness:
  "get_generate stub_sample_n (Map.empty :: string \<rightharpoonup> (json \<times> bool, nat) py_obj)
        \<lparr>num_words_param = Some 3, temperature_param = None\<rparr>
     = Inl (HTTPException 503 ''Model not loaded'')
   \<and> snd (lifespan_startup (stub_env all_files 50 stub_config) initial_globals)
     = Inr \<lparr>ARTEFACTS_global = ''artefacts'',
            model_state_global = [''model'' \<mapsto> ModelObj (JDict [(''vocab'', JInt 50)], True),
                                  ''tokenizer'' \<mapsto> TokenizerObj 50]\<rparr>
   \<and> status_code (get_generate stub_sample_n
        [''model'' \<mapsto> ModelObj (JDict [(''vocab'', JInt 50)], True),
         ''tokenizer'' \<mapsto> TokenizerObj (50::nat)]
        \<lparr>num_words_param = Some 3, temperature_param = None\<rparr>) = 200"
proof -
  define q where "q = \<lparr>num_words_param = Some 3, temperature_param = None\<rparr>"
  define env where "env = stub_env all_files 50 stub_config"
  define g' :: "(json \<times> bool, nat) globals" where "g' = \<lparr>ARTEFACTS_global = ''artefacts'',
            model_state_global = [''model'' \<mapsto> ModelObj (JDict [(''vocab'', JInt 50)], True),
                                  ''tokenizer'' \<mapsto> TokenizerObj 50]\<rparr>"
  have v: "validate_query q = Inr (3, 1)"
    by (simp add: q_def validate_query_def query_num_words_def query_temperature_def)
  have l: "load_model env ''artefacts'' = (load_model_calls ''artefacts'' (JDict [(''vocab'', JInt 50)]),
             Inr ((JDict [(''vocab'', JInt 50)], True), 50))"
    by (simp add: env_def load_model_def load_model_calls_def stub_env_def all_files_def
          stub_config_def io_defs Let_def)
  have s: "lifespan_startup env initial_globals
             = (ExistsCall ''static'' # ExistsCall ''artefacts''
                  # load_model_calls ''artefacts'' (JDict [(''vocab'', JInt 50)]), Inr g')"
    unfolding lifespan_startup_def
    by (simp add: l initial_globals_def FRONTEND_FOLDER_def io_defs g'_def)
       (simp add: env_def stub_env_def all_files_def)
  have a: "ARTEFACTS_global g' = ''artefacts''"
    by (simp add: g'_def)
  from readiness_gating
         [where model_state = "Map.empty :: string \<rightharpoonup> (json \<times> bool, nat) py_obj" and sample_n = stub_sample_n and num_words = 3
            and temperature = 1 and q = q and env = env and g = initial_globals
            and cs = "ExistsCall ''static'' # ExistsCall ''artefacts''
                  # load_model_calls ''artefacts'' (JDict [(''vocab'', JInt 50)])"
            and g' = g' and m = "(JDict [(''vocab'', JInt 50)], True)" and t = 50]
       v s l a
  have "get_generate stub_sample_n (Map.empty :: string \<rightharpoonup> (json \<times> bool, nat) py_obj) q
          = Inl (HTTPException 503 ''Model not loaded'')"
    and "status_code (get_generate stub_sample_n (model_state_global g') q) \<noteq> 503"
    by simp_all
  moreover have "status_code (get_generate stub_sample_n (model_state_global g') q) = 200"
    by (simp add: get_generate_def v generate_words_def g'_def new_words_def dict_get_def
          stub_sample_n_def)
  ultimately show ?thesis
    using s by (simp add: q_def g'_def env_def)
qed

text \<open>
  C2. Let the startup run to its end. If \<^verbatim>\<open>load_model\<close> raised, whatever the
  exception, the registry after startup is the registry before it. Each failure of a
  load step (tokenizer file missing or not loadable, configuration file missing or not
  readable as JSON, no \<open>model\<close> key, the architecture not constructible, weights
  file missing, not readable or not fitting the model) is such a case. In every case the
  registry is either unchanged or holds both the model and the tokenizer entry: no
  state with exactly one of the two is reached.
\<close>

theorem load_is_atomic:
  assumes "lifespan_startup env g = (cs, Inr g')"
  shows "(\<forall>e. snd (load_model env (ARTEFACTS_global g')) = Inl e \<longrightarrow>
            model_state_global g' = model_state_global g)
       \<and> (\<not> path_exists env (ARTEFACTS_global g' @ ''/tokenizer.json'')
          \<or> (\<exists>e. tokenizer_from_file env (ARTEFACTS_global g' @ ''/tokenizer.json'') = Inl e)
          \<or> \<not> path_exists env (ARTEFACTS_global g' @ ''/config.json'')
          \<or> (\<exists>e. json_load env (ARTEFACTS_global g' @ ''/config.json'') = Inl e)
          \<or> (\<exists>config. json_load env (ARTEFACTS_global g' @ ''/config.json'') = Inr config
                \<and> py_contains ''model'' config \<noteq> Inr True)
          \<or> (\<exists>config model_config e.
                json_load env (ARTEFACTS_global g' @ ''/config.json'') = Inr config
                \<and> py_getitem config ''model'' = Inr model_config
                \<and> slang_rnn env model_config = Inl e)
          \<or> \<not> path_exists env (ARTEFACTS_global g' @ ''/model.pth'')
          \<or> (\<exists>e. torch_load env (ARTEFACTS_global g' @ ''/model.pth'') = Inl e)
          \<or> (\<exists>config model_config model w e.
                json_load env (ARTEFACTS_global g' @ ''/config.json'') = Inr config
                \<and> py_getitem config ''model'' = Inr model_config
                \<and> slang_rnn env model_config = Inr model
                \<and> torch_load env (ARTEFACTS_global g' @ ''/model.pth'') = Inr w
                \<and> load_state_dict env model w = Inl e)
          \<longrightarrow> model_state_global g' = model_state_global g)
       \<and> (model_state_global g' = model_state_global g
          \<or> (\<exists>m t. model_state_global g'
                = (model_state_global g)(''model'' \<mapsto> ModelObj m, ''tokenizer'' \<mapsto> TokenizerObj t)))"
proof -
  note cases = lifespan_startup_cases [OF assms]
  have failed: "model_state_global g' = model_state_global g"
    if "snd (load_model env (ARTEFACTS_global g')) = Inl e" for e
    using cases that by simp
  have both: "model_state_global g' = model_state_global g
          \<or> (\<exists>m t. model_state_global g'
                = (model_state_global g)(''model'' \<mapsto> ModelObj m, ''tokenizer'' \<mapsto> TokenizerObj t))"
    using cases by (cases "snd (load_model env (ARTEFACTS_global g'))") auto
  from failed both load_model_fails [of env "ARTEFACTS_global g'"] show ?thesis
    by blast
qed

theorem load_is_atomic_witness:
  "lifespan_startup (stub_env files_without_weights 50 stub_config) initial_globals
     = ([ExistsCall ''static'', ExistsCall ''artefacts'',
         ExistsCall ''artefacts/tokenizer.json'', TokenizerFromFileCall ''artefacts/tokenizer.json'',
         ExistsCall ''artefacts/config.json'', JsonLoadCall ''artefacts/config.json'',
         SlangRNNCall (JDict [(''vocab'', JInt 50)]), ExistsCall ''artefacts/model.pth''],
        Inr initial_globals)
   \<and> snd (load_model (stub_env files_without_weights 50 stub_config) ''artefacts'')
     = Inl (PyExc FileNotFoundError ''Model weights not found at artefacts/model.pth'')
   \<and> model_state_global (initial_globals :: (json \<times> bool, nat) globals) = Map.empty"
proof -
  define env where "env = stub_env files_without_weights 50 stub_config"
  have l: "load_model env ''artefacts''
     = ([ExistsCall ''artefacts/tokenizer.json'', TokenizerFromFileCall ''artefacts/tokenizer.json'',
         ExistsCall ''artefacts/config.json'', JsonLoadCall ''artefacts/config.json'',
         SlangRNNCall (JDict [(''vocab'', JInt 50)]), ExistsCall ''artefacts/model.pth''],
        Inl (PyExc FileNotFoundError ''Model weights not found at artefacts/model.pth''))"
    by (simp add: env_def load_model_def stub_env_def files_without_weights_def
          stub_config_def io_defs Let_def)
  have s: "lifespan_startup env initial_globals
     = ([ExistsCall ''static'', ExistsCall ''artefacts'',
         ExistsCall ''artefacts/tokenizer.json'', TokenizerFromFileCall ''artefacts/tokenizer.json'',
         ExistsCall ''artefacts/config.json'', JsonLoadCall ''artefacts/config.json'',
         SlangRNNCall (JDict [(''vocab'', JInt 50)]), ExistsCall ''artefacts/model.pth''],
        Inr initial_globals)"
    unfolding lifespan_startup_def
    by (simp add: l initial_globals_def FRONTEND_FOLDER_def io_defs)
       (simp add: env_def stub_env_def files_without_weights_def)
  have a: "ARTEFACTS_global (initial_globals :: (json \<times> bool, nat) globals) = ''artefacts''"
    by (simp add: initial_globals_def)
  from load_is_atomic [OF s] l a
  have "model_state_global (initial_globals :: (json \<times> bool, nat) globals)
          = model_state_global (initial_globals :: (json \<times> bool, nat) globals)"
    by simp
  with s l show ?thesis
    by (simp add: env_def initial_globals_def)
qed

text \<open>
  C8. When the folder checks before the load call pass and \<^verbatim>\<open>load_model\<close> raises
  an exception, the startup completes normally: the exception is caught where
  \<^verbatim>\<open>load_model\<close> is called, and the only change to the globals is the choice of
  the artefacts folder. The health endpoint answers \<open>status: ok\<close> without reading the
  registry.
\<close>

theorem failed_load_does_not_crash_startup:
  assumes "path_exists env FRONTEND_FOLDER"
      and "A = (if path_exists env (ARTEFACTS_global g) then ARTEFACTS_global g
                else ''../artefacts'')"
      and "path_exists env A"
      and "snd (load_model env A) = Inl e"
  shows "snd (lifespan_startup env g) = Inr (g\<lparr>ARTEFACTS_global := A\<rparr>)
       \<and> health = [(''status'', ''ok'')]"
  using assms
  by (cases "load_model env A")
     (auto simp add: lifespan_startup_def io_defs Let_def health_def
        split: if_splits sum.splits prod.splits)

theorem failed_load_does_not_crash_startup_witness:
  "path_exists (stub_env files_without_weights 50 stub_config) FRONTEND_FOLDER
   \<and> path_exists (stub_env files_without_weights 50 stub_config) ''artefacts''
   \<and> snd (load_model (stub_env files_without_weights 50 stub_config) ''artefacts'')
       = Inl (PyExc FileNotFoundError ''Model weights not found at artefacts/model.pth'')
   \<and> snd (lifespan_startup (stub_env files_without_weights 50 stub_config) initial_globals)
       = Inr initial_globals
   \<and> health = [(''status'', ''ok'')]"
proof -
  define env where "env = stub_env files_without_weights 50 stub_config"
  have f: "path_exists env FRONTEND_FOLDER"
    and p: "path_exists env ''artefacts''"
    by (simp_all add: env_def stub_env_def files_without_weights_def FRONTEND_FOLDER_def)
  have a: "''artefacts'' = (if path_exists env (ARTEFACTS_global (initial_globals :: (json \<times> bool, nat) globals))
              then ARTEFACTS_global (initial_globals :: (json \<times> bool, nat) globals) else ''../artefacts'')"
    using p by (simp add: initial_globals_def)
  have l: "snd (load_model env ''artefacts'')
       = Inl (PyExc FileNotFoundError ''Model weights not found at artefacts/model.pth'')"
    by (simp add: env_def load_model_def stub_env_def files_without_weights_def
          stub_config_def io_defs Let_def)
  from failed_load_does_not_crash_startup [OF f a p l] f p l show ?thesis
    by (simp add: env_def initial_globals_def)
qed




section \<open>Properties of the sampler\<close>











end
